theory Spec2Isabelle
  imports Complex_Main "HOL-Library.Word"
begin

section \<open>The GELF UDP client of src/gelf.ts\<close>

text \<open>
  The class \<^verbatim>\<open>Gelf\<close> normalises a log event to JSON text, compresses it, splits the
  compressed bytes into chunks when they exceed the configured size, and hands the
  resulting datagrams to a UDP socket one after the other. Each method of the class is
  a function here. What the class takes from the outside world (the random number
  generator, the clock, the host name, zlib, the socket) is a parameter.
\<close>

subsection \<open>Bytes, buffers and the configuration\<close>

type_synonym byte = "8 word"

text \<open>A Node \<^verbatim>\<open>Buffer\<close> is a sequence of bytes; a plain JavaScript array of
  numbers is a list of integers.\<close>

type_synonym Buffer = "byte list"

text \<open>\<^verbatim>\<open>this.config\<close>: the caller's options merged over \<^verbatim>\<open>defaults\<close>.\<close>

record GelfOptions =
  graylogPort :: int
  graylogHostname :: string
  connection :: string
  maxChunkSizeWan :: int
  maxChunkSizeLan :: int

definition defaults :: GelfOptions where
  "defaults = \<lparr> graylogPort = 12201, graylogHostname = ''127.0.0.1'',
     connection = ''wan'', maxChunkSizeWan = 1420, maxChunkSizeLan = 8154 \<rparr>"

definition GELF_MAGIC_NO :: "int list" where
  "GELF_MAGIC_NO = [0x1e, 0x0f]"

subsection \<open>Built-ins used by the chunker\<close>

text \<open>\<^verbatim>\<open>Array.prototype.slice.call(buf, start, fin)\<close>: a negative bound counts from
  the end, every bound is clamped to the length, and the result is a plain array holding
  the bytes as numbers.\<close>

definition slice_call :: "Buffer \<Rightarrow> int \<Rightarrow> int \<Rightarrow> int list" where
  "slice_call buf start fin =
     (let len = int (length buf);
          k = (if start < 0 then max (len + start) 0 else min start len);
          final = (if fin < 0 then max (len + fin) 0 else min fin len)
      in map uint (take (nat (final - k)) (drop (nat k) buf)))"

text \<open>\<^verbatim>\<open>Buffer.from(array)\<close>: every entry is truncated to its low eight bits.\<close>

definition Buffer_from :: "int list \<Rightarrow> Buffer" where
  "Buffer_from a = map word_of_int a"

text \<open>\<^verbatim>\<open>res[index] = v\<close> on an array: an index inside the array overwrites, the
  index one past the end extends the array by one. (\<^verbatim>\<open>forEach\<close> below visits
  0, 1, 2, ... so no other index is ever written.)\<close>

definition array_set :: "'a list \<Rightarrow> nat \<Rightarrow> 'a \<Rightarrow> 'a list" where
  "array_set res index v = (if index < length res then res[index := v] else res @ [v])"

subsection \<open>getChunks\<close>

text \<open>
  \<^verbatim>\<open>for (let index = 0; index < buf.length; index += chunkSize) res.push(slice(...))\<close>.
  The loop does not end when \<^verbatim>\<open>chunkSize\<close> is zero or negative and the buffer is not
  empty, so the loop is a partial function: \<open>None\<close> is "never returns".
\<close>

partial_function (option) getChunks_loop ::
  "Buffer \<Rightarrow> int \<Rightarrow> int \<Rightarrow> int list list \<Rightarrow> int list list option" where
  "getChunks_loop buf chunkSize index res =
     (if index < int (length buf)
      then getChunks_loop buf chunkSize (index + chunkSize)
             (res @ [slice_call buf index (index + chunkSize)])
      else Some res)"

declare getChunks_loop.simps [code]

definition getChunks :: "Buffer \<Rightarrow> int \<Rightarrow> int list list option" where
  "getChunks buf chunkSize = getChunks_loop buf chunkSize 0 []"

subsection \<open>createPackets\<close>

text \<open>\<^verbatim>\<open>Math.floor(Math.random() * (99999999 - 10000000)) + 10000000\<close>. The engine
  multiplies in double-precision arithmetic, which rounds; the whole number that
  \<^verbatim>\<open>Math.floor\<close> returns for the product, from 0 to 89999999, is the parameter
  \<open>scaled\<close> (it is 0 when \<^verbatim>\<open>Math.random()\<close> returned 0). Adding 10000000 to a whole
  number of this size is exact.\<close>

definition newMsgId :: "int \<Rightarrow> int" where
  "newMsgId scaled = scaled + 10000000"

text \<open>
  The body of \<^verbatim>\<open>chunks.forEach((chunk, index) => ...)\<close>.
  \<^verbatim>\<open>GELF_MAGIC_NO.concat(msgId, index, count, chunk)\<close> appends the three numbers as
  one array entry each and then the entries of the array \<^verbatim>\<open>chunk\<close>.
\<close>

definition packet :: "int \<Rightarrow> nat \<Rightarrow> nat \<Rightarrow> int list \<Rightarrow> Buffer" where
  "packet msgId index count chunk =
     Buffer_from (GELF_MAGIC_NO @ [msgId, int index, int count] @ chunk)"

fun forEach_chunk :: "int \<Rightarrow> nat \<Rightarrow> int list list \<Rightarrow> nat \<Rightarrow> Buffer list \<Rightarrow> Buffer list" where
  "forEach_chunk msgId count [] index res = res"
| "forEach_chunk msgId count (chunk # chunks) index res =
     forEach_chunk msgId count chunks (index + 1)
       (array_set res index (packet msgId index count chunk))"

definition createPackets :: "int \<Rightarrow> int list list \<Rightarrow> Buffer list" where
  "createPackets scaled chunks =
     (let count = length chunks;
          msgId = newMsgId scaled
      in forEach_chunk msgId count chunks 0 [])"

subsection \<open>maybeChunkMessage\<close>

text \<open>The method returns either the buffer itself or an array of packets. \<open>scaled\<close>
  is the random number of \<open>createPackets\<close>.\<close>

datatype Msg = Single Buffer | Packets "Buffer list"

definition maybeChunkMessage :: "GelfOptions \<Rightarrow> int \<Rightarrow> Buffer \<Rightarrow> Msg option" where
  "maybeChunkMessage config scaled buf =
     (let bufSize = int (length buf) in
      if connection config = ''wan'' \<and> bufSize > maxChunkSizeWan config then
        (case getChunks buf (maxChunkSizeWan config) of
           None \<Rightarrow> None
         | Some chunks \<Rightarrow> Some (Packets (createPackets scaled chunks)))
      else if connection config = ''lan'' \<and> bufSize > maxChunkSizeLan config then
        (case getChunks buf (maxChunkSizeLan config) of
           None \<Rightarrow> None
         | Some chunks \<Rightarrow> Some (Packets (createPackets scaled chunks)))
      else Some (Single buf))"

subsection \<open>JavaScript values and JSON.stringify\<close>

text \<open>
  The values a log event can hold. A number is a rational here (NaN and the infinities
  are left out); how the engine prints a number is a parameter of the serialiser. An
  object is a plain object (its prototype is \<^verbatim>\<open>Object.prototype\<close>), given by the list
  of its own properties in enumeration order, with distinct keys.
\<close>

datatype jsval =
    JUndefined
  | JNull
  | JBool bool
  | JNum rat
  | JStr string
  | JArr "jsval list"
  | JObj "(string \<times> jsval) list"

text \<open>\<^verbatim>\<open>if (v)\<close> and \<^verbatim>\<open>!v\<close>: which values count as true.\<close>

fun truthy :: "jsval \<Rightarrow> bool" where
  "truthy JUndefined = False"
| "truthy JNull = False"
| "truthy (JBool b) = b"
| "truthy (JNum n) = (n \<noteq> 0)"
| "truthy (JStr s) = (s \<noteq> [])"
| "truthy (JArr vs) = True"
| "truthy (JObj ps) = True"

text \<open>\<^verbatim>\<open>obj.key\<close>: a missing property reads as \<^verbatim>\<open>undefined\<close>.\<close>

definition get_prop :: "(string \<times> jsval) list \<Rightarrow> string \<Rightarrow> jsval" where
  "get_prop obj key = (case map_of obj key of None \<Rightarrow> JUndefined | Some v \<Rightarrow> v)"

text \<open>\<^verbatim>\<open>obj.key = v\<close>: an existing property keeps its place, a new one goes last.\<close>

fun set_prop :: "(string \<times> jsval) list \<Rightarrow> string \<Rightarrow> jsval \<Rightarrow> (string \<times> jsval) list" where
  "set_prop [] key v = [(key, v)]"
| "set_prop ((k, w) # ps) key v =
     (if k = key then (k, v) # ps else (k, w) # set_prop ps key v)"

text \<open>
  The object \<^verbatim>\<open>json\<close> that \<open>sanitizeMsg\<close> builds: its own properties, and its
  prototype once an assignment has replaced it (\<open>None\<close>: still
  \<^verbatim>\<open>Object.prototype\<close>).
\<close>

record JsonObject =
  own :: "(string \<times> jsval) list"
  proto :: "jsval option"

definition emptyObject :: JsonObject where
  "emptyObject = \<lparr> own = [], proto = None \<rparr>"

text \<open>
  \<^verbatim>\<open>json[key] = v\<close>. The key \<^verbatim>\<open>__proto__\<close> reaches the setter of
  \<^verbatim>\<open>Object.prototype\<close>: an object or \<^verbatim>\<open>null\<close> becomes the prototype, any other
  value is ignored, and no property is created. Every other key sets an own property.
\<close>

definition assign :: "JsonObject \<Rightarrow> string \<Rightarrow> jsval \<Rightarrow> JsonObject" where
  "assign obj key v =
     (if key = ''__proto__''
      then (case v of
              JObj ps \<Rightarrow> obj\<lparr>proto := Some v\<rparr>
            | JArr vs \<Rightarrow> obj\<lparr>proto := Some v\<rparr>
            | JNull \<Rightarrow> obj\<lparr>proto := Some v\<rparr>
            | _ \<Rightarrow> obj)
      else obj\<lparr>own := set_prop (own obj) key v\<rparr>)"

text \<open>
  \<^verbatim>\<open>json.key\<close>: an own property, or else what the prototype holds. The class reads
  only \<^verbatim>\<open>short_message\<close> from \<^verbatim>\<open>json\<close>, which \<^verbatim>\<open>Object.prototype\<close>, an array
  and \<^verbatim>\<open>null\<close> do not hold.
\<close>

definition read_prop :: "JsonObject \<Rightarrow> string \<Rightarrow> jsval" where
  "read_prop obj key =
     (case map_of (own obj) key of
        Some v \<Rightarrow> v
      | None \<Rightarrow> (case proto obj of Some (JObj ps) \<Rightarrow> get_prop ps key | _ \<Rightarrow> JUndefined))"

text \<open>\<^verbatim>\<open>Object.assign(target, source)\<close>: every property of the source is assigned to
  the target, in the source's order.\<close>

definition Object_assign :: "JsonObject \<Rightarrow> (string \<times> jsval) list \<Rightarrow> JsonObject" where
  "Object_assign target source = foldl (\<lambda>obj (k, v). assign obj k v) target source"

definition hex_digit :: "nat \<Rightarrow> char" where
  "hex_digit d = (if d < 10 then char_of (48 + d) else char_of (87 + d))"

text \<open>The escapes of JSON.stringify for one character of a string.\<close>

definition escape_char :: "char \<Rightarrow> string" where
  "escape_char c =
     (let n = (of_char c :: nat) in
      if n = 0x22 then [CHR 0x5C, CHR 0x22]
      else if n = 0x5C then [CHR 0x5C, CHR 0x5C]
      else if n = 0x08 then [CHR 0x5C, CHR ''b'']
      else if n = 0x0C then [CHR 0x5C, CHR ''f'']
      else if n = 0x0A then [CHR 0x5C, CHR ''n'']
      else if n = 0x0D then [CHR 0x5C, CHR ''r'']
      else if n = 0x09 then [CHR 0x5C, CHR ''t'']
      else if n < 0x20 then [CHR 0x5C, CHR ''u'', CHR ''0'', CHR ''0'',
                             hex_digit (n div 16), hex_digit (n mod 16)]
      else [c])"

definition quote :: "string \<Rightarrow> string" where
  "quote s = [CHR 0x22] @ concat (map escape_char s) @ [CHR 0x22]"

fun join :: "string \<Rightarrow> string list \<Rightarrow> string" where
  "join sep [] = []"
| "join sep [x] = x"
| "join sep (x # y # ys) = x @ sep @ join sep (y # ys)"

text \<open>
  The serialisation of a value; \<open>None\<close> is \<^verbatim>\<open>undefined\<close>, which an object leaves
  out and an array prints as \<^verbatim>\<open>null\<close>.
\<close>

fun serialize :: "(rat \<Rightarrow> string) \<Rightarrow> jsval \<Rightarrow> string option"
  and serialize_elems :: "(rat \<Rightarrow> string) \<Rightarrow> jsval list \<Rightarrow> string list"
  and serialize_props :: "(rat \<Rightarrow> string) \<Rightarrow> (string \<times> jsval) list \<Rightarrow> string list" where
  "serialize ns JUndefined = None"
| "serialize ns JNull = Some ''null''"
| "serialize ns (JBool b) = Some (if b then ''true'' else ''false'')"
| "serialize ns (JNum n) = Some (ns n)"
| "serialize ns (JStr s) = Some (quote s)"
| "serialize ns (JArr vs) = Some (''['' @ join '','' (serialize_elems ns vs) @ '']'')"
| "serialize ns (JObj ps) = Some (''{'' @ join '','' (serialize_props ns ps) @ ''}'')"
| "serialize_elems ns [] = []"
| "serialize_elems ns (v # vs) =
     (case serialize ns v of None \<Rightarrow> ''null'' | Some s \<Rightarrow> s) # serialize_elems ns vs"
| "serialize_props ns [] = []"
| "serialize_props ns ((k, v) # ps) =
     (case serialize ns v of
        None \<Rightarrow> serialize_props ns ps
      | Some s \<Rightarrow> (quote k @ '':'' @ s) # serialize_props ns ps)"

text \<open>\<^verbatim>\<open>JSON.stringify(json)\<close> for an object \<^verbatim>\<open>json\<close> with these own
  properties (inherited ones are not serialised).\<close>

definition JSON_stringify :: "(rat \<Rightarrow> string) \<Rightarrow> (string \<times> jsval) list \<Rightarrow> string" where
  "JSON_stringify ns json = ''{'' @ join '','' (serialize_props ns json) @ ''}''"

subsection \<open>The outside world, events and callbacks\<close>

datatype error = Error string | TypeError string

text \<open>What a run does that can be seen from outside, in the order it happens:
  a datagram handed to the socket (with port and host), the completion callback called
  with an error or \<^verbatim>\<open>null\<close>, an error published with \<^verbatim>\<open>emit('error', err)\<close>.\<close>

datatype event =
    ClientSend Buffer int string
  | Called "error option"
  | Emitted error

text \<open>
  Everything the class asks of its environment:
  \<^item> \<open>scaledRandom\<close>: the value of
    \<^verbatim>\<open>Math.floor(Math.random() * (99999999 - 10000000))\<close>;
  \<^item> \<open>hostname\<close>: \<^verbatim>\<open>os.hostname()\<close>;
  \<^item> \<open>getTime\<close>: \<^verbatim>\<open>new Date().getTime()\<close>, in milliseconds;
  \<^item> \<open>numberToString\<close>: how the engine prints a number;
  \<^item> \<open>deflate\<close>: what zlib gives its callback for a text, an error or a buffer;
  \<^item> \<open>sendThrows\<close>: whether the \<open>k\<close>-th call of \<^verbatim>\<open>client.send\<close> in a call of
    \<^verbatim>\<open>send\<close> (counting from 0) throws at once, before anything is sent (a port out of
    range, a closed socket), and what;
  \<^item> \<open>udpSend\<close>: what the socket gives the callback of the \<open>k\<close>-th send of a call
    (counting from 0), an error or nothing;
  \<^item> \<open>errorListener\<close>: whether a listener is subscribed to \<^verbatim>\<open>'error'\<close>;
  \<^item> \<open>seriesCallbackReturn\<close>: whether the callback that \<^verbatim>\<open>async.series\<close> passes to a
    task returns a value that counts as true.
\<close>

record Env =
  scaledRandom :: int
  hostname :: string
  getTime :: int
  numberToString :: "rat \<Rightarrow> string"
  deflate :: "string \<Rightarrow> error + Buffer"
  sendThrows :: "nat \<Rightarrow> error option"
  udpSend :: "nat \<Rightarrow> error option"
  errorListener :: bool
  seriesCallbackReturn :: bool

text \<open>
  A computation yields the events it caused and either an exception that was thrown
  (\<open>Inl\<close>) or its value (\<open>Inr\<close>); \<open>None\<close> is a computation that never returns.
\<close>

type_synonym 'a io = "(event list \<times> (error + 'a)) option"

definition ret :: "'a \<Rightarrow> 'a io" where
  "ret x = Some ([], Inr x)"

definition throw :: "error \<Rightarrow> 'a io" where
  "throw e = Some ([], Inl e)"

definition happen :: "event \<Rightarrow> unit io" where
  "happen ev = Some ([ev], Inr ())"

text \<open>Sequencing: the second computation runs only if the first returned normally.\<close>

definition andThen :: "'a io \<Rightarrow> ('a \<Rightarrow> 'b io) \<Rightarrow> 'b io" where
  "andThen m f =
     (case m of
        None \<Rightarrow> None
      | Some (t, Inl e) \<Rightarrow> Some (t, Inl e)
      | Some (t, Inr x) \<Rightarrow>
          (case f x of None \<Rightarrow> None | Some (t', r) \<Rightarrow> Some (t @ t', r)))"

text \<open>A completion callback takes the error or \<^verbatim>\<open>null\<close>; the value of the computation
  is whether what it returned counts as true.\<close>

type_synonym Callback = "error option \<Rightarrow> bool io"

text \<open>A callback that records its call and returns a value that counts as \<open>r\<close>
  (\<open>r = False\<close> for a callback that returns nothing, as the default \<^verbatim>\<open>() => {}\<close>
  does).\<close>

definition observer :: "bool \<Rightarrow> Callback" where
  "observer r err = andThen (happen (Called err)) (\<lambda>_. ret r)"

subsection \<open>emitError\<close>

text \<open>\<^verbatim>\<open>this.emit('error', err)\<close>: with no listener for \<^verbatim>\<open>'error'\<close> an EventEmitter
  throws the error.\<close>

definition emitError :: "Env \<Rightarrow> error \<Rightarrow> unit io" where
  "emitError env err =
     andThen (happen (Emitted err))
       (\<lambda>_. if errorListener env then ret () else throw err)"

subsection \<open>sanitizeMsg\<close>

text \<open>The argument is a string or an object.\<close>

datatype LogEvent = Text string | Fields "(string \<times> jsval) list"

definition applyDefaults :: "Env \<Rightarrow> (string \<times> jsval) list \<Rightarrow> JsonObject \<Rightarrow> JsonObject" where
  "applyDefaults env msg json =
     (let json1 = (if \<not> truthy (get_prop msg ''version'')
                   then assign json ''version'' (JStr ''1.0'') else json);
          json2 = (if \<not> truthy (get_prop msg ''host'')
                   then assign json1 ''host'' (JStr (hostname env)) else json1);
          json3 = (if \<not> truthy (get_prop msg ''timestamp'')
                   then assign json2 ''timestamp'' (JNum (of_int (getTime env) / 1000))
                   else json2)
      in if \<not> truthy (get_prop msg ''facility'')
         then assign json3 ''facility'' (JStr ''node.js'') else json3)"

definition shortMessageAndStringify :: "Env \<Rightarrow> JsonObject \<Rightarrow> string" where
  "shortMessageAndStringify env json =
     JSON_stringify (numberToString env)
       (own (if \<not> truthy (read_prop json ''short_message'')
             then assign json ''short_message'' (JStr ''Gelf Shortmessage'') else json))"

text \<open>The result is the JSON text, or \<open>None\<close> for \<^verbatim>\<open>undefined\<close> (what
  \<^verbatim>\<open>return this.emitError(...)\<close> returns).\<close>

definition sanitizeMsg :: "Env \<Rightarrow> LogEvent \<Rightarrow> string option io" where
  "sanitizeMsg env msg =
     (let json = (case msg of
                    Text s \<Rightarrow> assign emptyObject ''short_message'' (JStr s)
                  | Fields m \<Rightarrow> Object_assign emptyObject m)
      in case msg of
           Fields m \<Rightarrow>
             if truthy (get_prop m ''_id'')
             then andThen (emitError env (Error ''_id is not allowed'')) (\<lambda>_. ret None)
             else ret (Some (shortMessageAndStringify env (applyDefaults env m json)))
         | Text s \<Rightarrow> ret (Some (shortMessageAndStringify env json)))"

subsection \<open>compress\<close>

definition compress ::
  "Env \<Rightarrow> string \<Rightarrow> (error option \<Rightarrow> Buffer option \<Rightarrow> unit io) \<Rightarrow> unit io" where
  "compress env msg cb =
     (case deflate env msg of
        Inl err \<Rightarrow> andThen (cb (Some err) None) (\<lambda>_. emitError env err)
      | Inr buf \<Rightarrow> cb None (Some buf))"

subsection \<open>send\<close>

text \<open>
  \<^verbatim>\<open>async.series(tasks, final)\<close>: the tasks run one after the other. A task is given
  a callback; called with an error it calls \<open>final\<close> with that error and no further task
  runs, called with \<^verbatim>\<open>null\<close> it lets the next task run, and after the last task
  \<open>final\<close> is called with \<^verbatim>\<open>null\<close>. \<open>r\<close> is whether the value that callback returns
  counts as true.
\<close>

primrec async_series ::
  "bool \<Rightarrow> ((error option \<Rightarrow> bool io) \<Rightarrow> unit io) list \<Rightarrow> (error option \<Rightarrow> unit io) \<Rightarrow> unit io" where
  "async_series r [] final = final None"
| "async_series r (task # tasks) final =
     task (\<lambda>err. case err of
                   Some e \<Rightarrow> andThen (final (Some e)) (\<lambda>_. ret r)
                 | None \<Rightarrow> andThen (async_series r tasks final) (\<lambda>_. ret r))"

text \<open>One task of \<^verbatim>\<open>send\<close>: \<^verbatim>\<open>client.send\<close> throws at once, or the \<open>k\<close>-th
  datagram goes to the socket and the socket's callback runs
  \<^verbatim>\<open>if (err) { return cb(err) && self.emitError(err) } return cb(null)\<close>.\<close>

definition sendTask ::
  "Env \<Rightarrow> GelfOptions \<Rightarrow> nat \<Rightarrow> Buffer \<Rightarrow> (error option \<Rightarrow> bool io) \<Rightarrow> unit io" where
  "sendTask env config k m cb =
     (case sendThrows env k of
        Some thrown \<Rightarrow> throw thrown
      | None \<Rightarrow>
          andThen (happen (ClientSend m (graylogPort config) (graylogHostname config)))
            (\<lambda>_. case udpSend env k of
                    Some err \<Rightarrow>
                      andThen (cb (Some err)) (\<lambda>r. if r then emitError env err else ret ())
                  | None \<Rightarrow> andThen (cb None) (\<lambda>_. ret ())))"

text \<open>The callback given to \<^verbatim>\<open>async.series\<close>:
  \<^verbatim>\<open>if (err) return cb(err) && this.emitError(err); cb(null)\<close>.\<close>

definition sendDone :: "Env \<Rightarrow> Callback \<Rightarrow> error option \<Rightarrow> unit io" where
  "sendDone env cb err =
     (case err of
        Some e \<Rightarrow> andThen (cb (Some e)) (\<lambda>r. if r then emitError env e else ret ())
      | None \<Rightarrow> andThen (cb None) (\<lambda>_. ret ()))"

definition send :: "Env \<Rightarrow> GelfOptions \<Rightarrow> Msg \<Rightarrow> Callback \<Rightarrow> unit io" where
  "send env config msg cb =
     (let msgs = (case msg of Single m \<Rightarrow> [m] | Packets ms \<Rightarrow> ms);
          tasks = map (\<lambda>(k, m). sendTask env config k m) (enumerate 0 msgs)
      in async_series (seriesCallbackReturn env) tasks (sendDone env cb))"

subsection \<open>sendMessage and the two listeners\<close>

text \<open>The callback given to \<^verbatim>\<open>compress\<close> ignores the error; with no buffer,
  \<^verbatim>\<open>buf.length\<close> in \<^verbatim>\<open>maybeChunkMessage\<close> throws a TypeError.\<close>

definition sendMessage :: "Env \<Rightarrow> GelfOptions \<Rightarrow> string \<Rightarrow> Callback \<Rightarrow> unit io" where
  "sendMessage env config msg cb =
     compress env msg
       (\<lambda>_ buf. case buf of
                  None \<Rightarrow> throw (TypeError ''Cannot read properties of undefined'')
                | Some b \<Rightarrow>
                    (case maybeChunkMessage config (scaledRandom env) b of
                       None \<Rightarrow> None
                     | Some m \<Rightarrow> send env config m cb))"

text \<open>\<^verbatim>\<open>this.on('gelf.log', ...)\<close>: \<^verbatim>\<open>const msg = this.sanitizeMsg(json) || ''\<close>, then
  \<^verbatim>\<open>sendMessage(msg, cb)\<close> in a later turn of the event loop.\<close>

definition on_gelf_log :: "Env \<Rightarrow> GelfOptions \<Rightarrow> LogEvent \<Rightarrow> Callback \<Rightarrow> unit io" where
  "on_gelf_log env config json cb =
     andThen (sanitizeMsg env json)
       (\<lambda>r. let msg = (case r of None \<Rightarrow> [] | Some s \<Rightarrow> if s = [] then [] else s)
            in sendMessage env config msg cb)"

definition on_gelf_message :: "Env \<Rightarrow> GelfOptions \<Rightarrow> string \<Rightarrow> Callback \<Rightarrow> unit io" where
  "on_gelf_message env config msg cb = sendMessage env config msg cb"

subsection \<open>Notions used to state the properties\<close>

text \<open>Cutting a list into consecutive pieces of \<open>n\<close> elements, the last one possibly
  shorter: what \<open>getChunks\<close> is shown to compute for a positive chunk size.\<close>

fun pieces :: "nat \<Rightarrow> 'a list \<Rightarrow> 'a list list" where
  "pieces n xs = (if n = 0 \<or> xs = [] then [] else take n xs # pieces n (drop n xs))"

declare pieces.simps [simp del]

text \<open>A header of five bytes, written out: the two magic bytes, one byte of message
  id, one byte of index, one byte of count.\<close>

definition shortHeader :: "byte \<Rightarrow> nat \<Rightarrow> nat \<Rightarrow> Buffer" where
  "shortHeader idByte index count = [0x1e, 0x0f, idByte, word_of_nat index, word_of_nat count]"

text \<open>The packets that carry the given fragments, in order, behind such a header.\<close>

definition framed :: "byte \<Rightarrow> Buffer list \<Rightarrow> Buffer list" where
  "framed idByte frags =
     map (\<lambda>(i, frag). shortHeader idByte i (length frags) @ frag) (enumerate 0 frags)"

text \<open>The chunk size that \<open>maybeChunkMessage\<close> compares the payload with, for the two
  connection kinds it knows.\<close>

definition configuredMaxChunkSize :: "GelfOptions \<Rightarrow> int option" where
  "configuredMaxChunkSize config =
     (if connection config = ''wan'' then Some (maxChunkSizeWan config)
      else if connection config = ''lan'' then Some (maxChunkSizeLan config)
      else None)"

text \<open>What a trace holds of each kind of event, in order.\<close>

fun datagrams :: "event list \<Rightarrow> Buffer list" where
  "datagrams [] = []"
| "datagrams (ClientSend m port host # t) = m # datagrams t"
| "datagrams (Called e # t) = datagrams t"
| "datagrams (Emitted e # t) = datagrams t"

fun callbackArgs :: "event list \<Rightarrow> error option list" where
  "callbackArgs [] = []"
| "callbackArgs (ClientSend m port host # t) = callbackArgs t"
| "callbackArgs (Called e # t) = e # callbackArgs t"
| "callbackArgs (Emitted e # t) = callbackArgs t"

fun published :: "event list \<Rightarrow> error list" where
  "published [] = []"
| "published (ClientSend m port host # t) = published t"
| "published (Called e # t) = published t"
| "published (Emitted e # t) = e # published t"

text \<open>Decimal digits of a number that is not negative, and a number printer that is
  right on whole numbers (JavaScript prints a whole number below \<open>10\<^sup>2\<^sup>1\<close> by its
  digits).\<close>

function decimal :: "int \<Rightarrow> string" where
  "decimal n =
     (if n < 10 then [char_of (48 + n)] else decimal (n div 10) @ [char_of (48 + n mod 10)])"
  by pat_completeness auto
termination
  by (relation "measure nat") auto

declare decimal.simps [simp del]

definition printWhole :: "rat \<Rightarrow> string" where
  "printWhole q = (if q < 0 then ''-'' @ decimal \<lfloor>- q\<rfloor> else decimal \<lfloor>q\<rfloor>)"

text \<open>An environment for the examples: \<^verbatim>\<open>Math.random()\<close> gives 0, the clock reads a
  whole second, the socket succeeds, a listener for \<^verbatim>\<open>'error'\<close> is subscribed, and the callback that
  \<^verbatim>\<open>async.series\<close> gives a task returns nothing. The only text the examples
  compress is the empty one, whose zlib stream is the eight bytes given here.\<close>

definition exampleEnv :: Env where
  "exampleEnv = \<lparr> scaledRandom = 0, hostname = ''localhost'', getTime = 1700000000000,
     numberToString = printWhole,
     deflate = (\<lambda>text. Inr [0x78, 0x9c, 0x03, 0x00, 0x00, 0x00, 0x00, 0x01]),
     sendThrows = (\<lambda>k. None), udpSend = (\<lambda>k. None), errorListener = True, seriesCallbackReturn = False \<rparr>"

text \<open>The two packets made from the payload \<open>1, 2, 3\<close> cut at two bytes when
  \<^verbatim>\<open>Math.random()\<close> gave 0 (message id 10000000, whose low byte is \<open>0x80\<close>).\<close>

definition examplePackets :: "Buffer list" where
  "examplePackets = [[0x1e, 0x0f, 0x80, 0, 2, 1, 2], [0x1e, 0x0f, 0x80, 1, 2, 3]]"

section \<open>The chunker\<close>

subsection \<open>Cutting a list into pieces\<close>

lemma concat_pieces: "0 < n \<Longrightarrow> concat (pieces n xs) = xs"
proof (induction n xs rule: pieces.induct)
  case (1 n xs)
  then show ?case by (subst pieces.simps) auto
qed

lemma pieces_elem_length: "c \<in> set (pieces n xs) \<Longrightarrow> length c \<le> n \<and> c \<noteq> []"
proof (induction n xs arbitrary: c rule: pieces.induct)
  case (1 n xs)
  from "1.prems" have ne: "n \<noteq> 0" "xs \<noteq> []"
    by (subst (asm) pieces.simps, auto split: if_splits)+
  with "1.prems" have "c = take n xs \<or> c \<in> set (pieces n (drop n xs))"
    by (subst (asm) pieces.simps) auto
  then show ?case
  proof
    assume "c = take n xs"
    with ne show ?thesis by auto
  next
    assume "c \<in> set (pieces n (drop n xs))"
    with "1.IH" ne show ?thesis by blast
  qed
qed

lemma pieces_two:
  assumes "0 < n" "n < length xs"
  shows "2 \<le> length (pieces n xs)"
proof -
  from assms have a: "pieces n xs = take n xs # pieces n (drop n xs)"
    by (subst pieces.simps) auto
  from assms have b: "pieces n (drop n xs) = take n (drop n xs) # pieces n (drop n (drop n xs))"
    by (subst pieces.simps) auto
  show ?thesis by (simp add: a b)
qed

subsection \<open>getChunks cuts the buffer, or never returns\<close>

lemma slice_call_chunk:
  assumes "0 \<le> index" "index < int (length buf)" "0 < chunkSize"
  shows "slice_call buf index (index + chunkSize) =
           map uint (take (nat chunkSize) (drop (nat index) buf))"
proof (cases "index + chunkSize \<le> int (length buf)")
  case True
  with assms show ?thesis by (simp add: slice_call_def Let_def min_def)
next
  case False
  with assms have "take (nat (int (length buf) - index)) (drop (nat index) buf) = drop (nat index) buf"
    by simp
  moreover from False assms have "take (nat chunkSize) (drop (nat index) buf) = drop (nat index) buf"
    by simp
  ultimately show ?thesis using assms False by (simp add: slice_call_def Let_def min_def)
qed

lemma getChunks_loop_pieces:
  assumes "0 < chunkSize" "0 \<le> index"
  shows "getChunks_loop buf chunkSize index res =
           Some (res @ map (map uint) (pieces (nat chunkSize) (drop (nat index) buf)))"
  using assms(2)
proof (induction "length buf - nat index" arbitrary: index res rule: less_induct)
  case less
  show ?case
  proof (cases "index < int (length buf)")
    case False
    with less.prems have "drop (nat index) buf = []" by simp
    with False show ?thesis
      by (subst getChunks_loop.simps) (simp add: pieces.simps)
  next
    case True
    let ?n = "nat chunkSize"
    let ?rest = "drop (nat index) buf"
    from True less.prems have ne: "?rest \<noteq> []" by simp
    from assms(1) have npos: "?n \<noteq> 0" by simp
    have step: "pieces ?n ?rest = take ?n ?rest # pieces ?n (drop ?n ?rest)"
      using ne npos by (subst pieces.simps) simp
    have dd: "drop ?n ?rest = drop (nat (index + chunkSize)) buf"
      using assms(1) less.prems by (simp add: nat_add_distrib add.commute)
    have smaller: "length buf - nat (index + chunkSize) < length buf - nat index"
      using True assms(1) less.prems by linarith
    have nonneg: "0 \<le> index + chunkSize" using assms(1) less.prems by simp
    have "getChunks_loop buf chunkSize index res =
            getChunks_loop buf chunkSize (index + chunkSize)
              (res @ [slice_call buf index (index + chunkSize)])"
      using True by (subst getChunks_loop.simps) simp
    also have "\<dots> = Some ((res @ [slice_call buf index (index + chunkSize)]) @
                  map (map uint) (pieces ?n (drop (nat (index + chunkSize)) buf)))"
      by (rule less.hyps [OF smaller nonneg])
    also have "\<dots> = Some (res @ map (map uint) (pieces ?n ?rest))"
      using slice_call_chunk [OF less.prems True assms(1)] by (simp add: step dd del: drop_drop)
    finally show ?thesis .
  qed
qed

lemma getChunks_pieces:
  "0 < chunkSize \<Longrightarrow> getChunks buf chunkSize = Some (map (map uint) (pieces (nat chunkSize) buf))"
  by (simp add: getChunks_def getChunks_loop_pieces)

text \<open>With a chunk size of zero or less the index never reaches the end of a buffer that
  is not empty: the loop has no result.\<close>

lemma getChunks_loop_no_result:
  assumes "getChunks_loop buf chunkSize index res = Some y"
  shows "\<not> (chunkSize \<le> 0 \<and> index < int (length buf))"
proof (rule getChunks_loop.raw_induct
    [where P = "\<lambda>b cs idx r y. \<not> (cs \<le> 0 \<and> idx < int (length b))", OF _ assms])
  fix f :: "Buffer \<Rightarrow> int \<Rightarrow> int \<Rightarrow> int list list \<Rightarrow> int list list option"
  fix b cs idx r z
  assume IH: "\<And>b cs idx r z. f b cs idx r = Some z \<Longrightarrow> \<not> (cs \<le> 0 \<and> idx < int (length b))"
  assume body: "(if idx < int (length b)
      then f b cs (idx + cs) (r @ [slice_call b idx (idx + cs)]) else Some r) = Some z"
  show "\<not> (cs \<le> 0 \<and> idx < int (length b))"
  proof
    assume a: "cs \<le> 0 \<and> idx < int (length b)"
    with body have "f b cs (idx + cs) (r @ [slice_call b idx (idx + cs)]) = Some z" by simp
    from IH [OF this] a show False by simp
  qed
qed

lemma getChunks_never_returns:
  "chunkSize \<le> 0 \<Longrightarrow> buf \<noteq> [] \<Longrightarrow> getChunks buf chunkSize = None"
  using getChunks_loop_no_result [of buf chunkSize 0 "[]"]
  by (cases "getChunks buf chunkSize") (auto simp: getChunks_def)

subsection \<open>createPackets frames every chunk\<close>

lemma forEach_chunk_map:
  "forEach_chunk msgId count chunks (length res) res =
     res @ map (\<lambda>(i, chunk). packet msgId i count chunk) (enumerate (length res) chunks)"
proof (induction chunks arbitrary: res)
  case Nil
  then show ?case by simp
next
  case (Cons chunk chunks)
  let ?p = "packet msgId (length res) count chunk"
  have "forEach_chunk msgId count (chunk # chunks) (length res) res =
          forEach_chunk msgId count chunks (length (res @ [?p])) (res @ [?p])"
    by (simp add: array_set_def)
  also have "\<dots> = (res @ [?p]) @ map (\<lambda>(i, chunk). packet msgId i count chunk)
             (enumerate (length (res @ [?p])) chunks)"
    by (rule Cons.IH)
  also have "\<dots> = res @ map (\<lambda>(i, chunk). packet msgId i count chunk)
             (enumerate (length res) (chunk # chunks))"
    by simp
  finally show ?case .
qed

lemma createPackets_map:
  "createPackets random chunks =
     map (\<lambda>(i, chunk). packet (newMsgId random) i (length chunks) chunk) (enumerate 0 chunks)"
  using forEach_chunk_map [of "newMsgId random" "length chunks" chunks "[]"]
  by (simp add: createPackets_def Let_def)

lemma length_createPackets: "length (createPackets random chunks) = length chunks"
  by (simp add: createPackets_map)

lemma createPackets_nth:
  "i < length chunks \<Longrightarrow>
   createPackets random chunks ! i = packet (newMsgId random) i (length chunks) (chunks ! i)"
  by (simp add: createPackets_map nth_enumerate_eq)

lemma Buffer_from_uint: "Buffer_from (map uint bs) = bs"
  by (simp add: Buffer_from_def comp_def)

text \<open>What a packet is, byte by byte: the message id is one array entry, so one byte.\<close>

lemma packet_split:
  "packet msgId index count chunk =
     shortHeader (word_of_int msgId) index count @ Buffer_from chunk"
  by (simp add: packet_def shortHeader_def Buffer_from_def GELF_MAGIC_NO_def)

lemma length_shortHeader: "length (shortHeader idByte index count) = 5"
  by (simp add: shortHeader_def)

lemma enumerate_map_snd: "enumerate n (map f xs) = map (\<lambda>(i, x). (i, f x)) (enumerate n xs)"
  by (induction xs arbitrary: n) auto

lemma createPackets_framed:
  "createPackets random (map (map uint) frags) = framed (word_of_int (newMsgId random)) frags"
  by (simp add: createPackets_map framed_def enumerate_map_snd packet_split Buffer_from_uint
      split_def comp_def)

lemma framed_nth:
  "i < length frags \<Longrightarrow>
   framed idByte frags ! i = shortHeader idByte i (length frags) @ frags ! i"
  by (simp add: framed_def nth_enumerate_eq)

lemma length_framed: "length (framed idByte frags) = length frags"
  by (simp add: framed_def)

subsection \<open>maybeChunkMessage\<close>

lemma maybeChunkMessage_chunked:
  assumes "configuredMaxChunkSize config = Some maxSize" "0 < maxSize" "maxSize < int (length buf)"
  shows "maybeChunkMessage config random buf =
           Some (Packets (framed (word_of_int (newMsgId random)) (pieces (nat maxSize) buf)))"
  using assms
  by (auto simp: maybeChunkMessage_def configuredMaxChunkSize_def Let_def getChunks_pieces
      createPackets_framed split: if_splits)

lemma maybeChunkMessage_Packets:
  assumes "maybeChunkMessage config random buf = Some (Packets pkts)"
  shows "\<exists>chunks. pkts = createPackets random chunks"
  using assms by (auto simp: maybeChunkMessage_def Let_def split: if_splits option.splits)

text \<open>
  For a positive chunk size and a longer payload, the packets are five-byte headers
  followed by the pieces of the payload, in order: the payload comes back when five
  bytes are taken off every packet.
\<close>

lemma fragments_reassemble:
  assumes "configuredMaxChunkSize config = Some maxSize" "0 < maxSize" "maxSize < int (length buf)"
  shows "\<exists>pkts. maybeChunkMessage config random buf = Some (Packets pkts)
           \<and> pkts = framed (word_of_int (newMsgId random)) (pieces (nat maxSize) buf)
           \<and> concat (map (drop 5) pkts) = buf"
proof -
  let ?frags = "pieces (nat maxSize) buf"
  let ?pkts = "framed (word_of_int (newMsgId random)) ?frags"
  have c: "concat ?frags = buf" using assms(2) by (simp add: concat_pieces)
  have "map (drop 5) ?pkts = ?frags"
    by (rule nth_equalityI) (simp_all add: length_framed framed_nth length_shortHeader)
  with c maybeChunkMessage_chunked [OF assms] show ?thesis by auto
qed

text \<open>With a chunk size of zero or less and a payload that is not empty,
  \<open>maybeChunkMessage\<close> never returns.\<close>

lemma maybeChunkMessage_never_returns:
  assumes "configuredMaxChunkSize config = Some maxSize" "maxSize \<le> 0" "buf \<noteq> []"
  shows "maybeChunkMessage config random buf = None"
proof -
  from assms(3) have "0 < int (length buf)" by simp
  with assms(2) have longer: "maxSize < int (length buf)" by linarith
  from assms(2,3) have "getChunks buf maxSize = None" by (rule getChunks_never_returns)
  with assms(1) longer show ?thesis
    by (auto simp: maybeChunkMessage_def configuredMaxChunkSize_def Let_def split: if_splits)
qed

text \<open>Taking 12 bytes off every packet takes 7 bytes (or all) of every fragment away:
  what is left is always shorter than the payload.\<close>

lemma strip_twelve_framed: "map (drop 12) (framed idByte frags) = map (drop 7) frags"
  by (rule nth_equalityI) (simp_all add: length_framed framed_nth length_shortHeader)

lemma strip_seven_shorter:
  assumes "frags \<noteq> []" "\<forall>f \<in> set frags. f \<noteq> []"
  shows "length (concat (map (drop 7) frags)) < length (concat frags)"
proof -
  have "sum_list (map (\<lambda>f. length f - 7) frags) < sum_list (map length frags)"
    using assms by (intro sum_list_strict_mono) auto
  then show ?thesis by (simp add: length_concat comp_def)
qed

lemma twelve_byte_strip_always_loses:
  assumes "configuredMaxChunkSize config = Some maxSize" "0 < maxSize" "maxSize < int (length buf)"
  shows "\<exists>pkts. maybeChunkMessage config random buf = Some (Packets pkts)
           \<and> length (concat (map (drop 12) pkts)) < length buf"
proof -
  let ?frags = "pieces (nat maxSize) buf"
  from assms(2,3) have "0 < nat maxSize" "nat maxSize < length buf" by linarith+
  then have "2 \<le> length ?frags" by (rule pieces_two)
  then have ne: "?frags \<noteq> []" by auto
  have each: "\<forall>f \<in> set ?frags. f \<noteq> []" using pieces_elem_length by blast
  have "length (concat (map (drop 7) ?frags)) < length (concat ?frags)"
    by (rule strip_seven_shorter [OF ne each])
  also have "concat ?frags = buf" using assms(2) by (simp add: concat_pieces)
  finally show ?thesis
    using maybeChunkMessage_chunked [OF assms] by (simp add: strip_twelve_framed)
qed

text \<open>The default threshold: 1420 bytes are returned as they are, 1421 bytes become two
  packets, of 1425 and 6 bytes.\<close>

lemma pieces_1421:
  assumes "length xs = 1421"
  shows "pieces 1420 xs = [take 1420 xs, drop 1420 xs]"
proof -
  from assms have ne: "xs \<noteq> []" by auto
  from assms have ne2: "drop 1420 xs \<noteq> []" by simp
  from assms have e: "drop 1420 (drop 1420 xs) = []" by simp
  from assms have t: "take 1420 (drop 1420 xs) = drop 1420 xs" by simp
  have "pieces 1420 xs = take 1420 xs # pieces 1420 (drop 1420 xs)"
    using ne by (subst pieces.simps) simp
  also have "pieces 1420 (drop 1420 xs) = drop 1420 xs # pieces 1420 []"
    using ne2 by (subst pieces.simps) (simp add: e t del: drop_drop)
  also have "pieces 1420 ([] :: 'a list) = []"
    by (subst pieces.simps) simp
  finally show ?thesis .
qed

lemma maybeChunkMessage_1420:
  assumes "connection config = ''wan''" "maxChunkSizeWan config = 1420" "length buf = 1420"
  shows "maybeChunkMessage config random buf = Some (Single buf)"
  using assms by (simp add: maybeChunkMessage_def)

lemma maybeChunkMessage_1421:
  assumes "connection config = ''wan''" "maxChunkSizeWan config = 1420" "length buf = 1421"
  shows "maybeChunkMessage config random buf =
           Some (Packets [[0x1e, 0x0f, word_of_int (newMsgId random), 0, 2] @ take 1420 buf,
                          [0x1e, 0x0f, word_of_int (newMsgId random), 1, 2] @ drop 1420 buf])"
proof -
  from assms have c: "configuredMaxChunkSize config = Some 1420"
    by (simp add: configuredMaxChunkSize_def)
  have "maybeChunkMessage config random buf =
          Some (Packets (framed (word_of_int (newMsgId random)) (pieces (nat 1420) buf)))"
    by (rule maybeChunkMessage_chunked [OF c]) (simp_all add: assms(3))
  then show ?thesis
    by (simp add: pieces_1421 [OF assms(3)] framed_def shortHeader_def)
qed

section \<open>The transport and the listeners\<close>

text \<open>A message that was not chunked is one datagram: one send, then the callback.\<close>

lemma send_single:
  assumes "sendThrows env 0 = None" "udpSend env 0 = None"
  shows "send env config (Single b) (observer r) =
           Some ([ClientSend b (graylogPort config) (graylogHostname config), Called None], Inr ())"
  using assms
  by (simp add: send_def sendTask_def sendDone_def observer_def andThen_def happen_def ret_def)

text \<open>Three packets, the first send succeeds and the second fails: the whole trace.\<close>

lemma send_three_second_fails:
  assumes "sendThrows env 0 = None" "sendThrows env 1 = None"
    "udpSend env 0 = None" "udpSend env 1 = Some err"
  shows "send env config (Packets [p0, p1, p2]) (observer r) =
     Some ([ClientSend p0 (graylogPort config) (graylogHostname config),
            ClientSend p1 (graylogPort config) (graylogHostname config),
            Called (Some err)]
           @ (if r then [Emitted err] else [])
           @ (if (r \<longrightarrow> errorListener env) \<and> seriesCallbackReturn env then [Emitted err] else []),
           if (r \<or> seriesCallbackReturn env) \<and> \<not> errorListener env then Inl err else Inr ())"
  using assms
  by (simp add: send_def sendTask_def sendDone_def observer_def emitError_def
      andThen_def happen_def ret_def throw_def)

text \<open>A single datagram whose send fails, with a callback that returns nothing: the
  callback gets the error; the error is published only if the callback of
  \<^verbatim>\<open>async.series\<close> returned something true.\<close>

lemma transport_failure_single:
  assumes "sendThrows env 0 = None" "udpSend env 0 = Some err"
  shows "send env config (Single b) (observer False) =
           Some ([ClientSend b (graylogPort config) (graylogHostname config), Called (Some err)]
                 @ (if seriesCallbackReturn env then [Emitted err] else []),
                 if seriesCallbackReturn env \<and> \<not> errorListener env then Inl err else Inr ())"
  using assms
  by (simp add: send_def sendTask_def sendDone_def observer_def emitError_def
      andThen_def happen_def ret_def throw_def)

text \<open>\<^verbatim>\<open>compress\<close> on its own, with a callback that returns normally, does both: it
  calls the callback with the error and publishes the error.\<close>

lemma compress_failure_reported:
  assumes "deflate env msg = Inl err"
  shows "compress env msg (\<lambda>e b. andThen (observer r e) (\<lambda>_. ret ())) =
           Some ([Called (Some err), Emitted err], if errorListener env then Inr () else Inl err)"
  using assms
  by (simp add: compress_def observer_def emitError_def andThen_def happen_def ret_def throw_def)

text \<open>Inside \<^verbatim>\<open>sendMessage\<close> the callback given to \<^verbatim>\<open>compress\<close> throws on a failed
  compression before anything is reported.\<close>

lemma compression_failure_throws:
  assumes "deflate env msg = Inl err"
  shows "sendMessage env config msg cb =
           Some ([], Inl (TypeError ''Cannot read properties of undefined''))"
  using assms by (simp add: sendMessage_def compress_def andThen_def throw_def)

text \<open>A call of \<^verbatim>\<open>client.send\<close> that throws at once ends \<^verbatim>\<open>send\<close>: nothing is sent
  and the callback is not called.\<close>

lemma send_throws_at_once:
  assumes "sendThrows env 0 = Some thrown"
  shows "send env config (Single b) cb = Some ([], Inl thrown)"
  using assms by (simp add: send_def sendTask_def throw_def)

section \<open>The normaliser\<close>

text \<open>An \<^verbatim>\<open>_id\<close> whose value counts as true is rejected: the error is published and
  there is no envelope.\<close>

lemma reserved_id_rejected_when_truthy:
  assumes "truthy (get_prop m ''_id'')"
  shows "sanitizeMsg env (Fields m) =
           Some ([Emitted (Error ''_id is not allowed'')],
                 if errorListener env then Inr None else Inl (Error ''_id is not allowed''))"
  using assms
  by (simp add: sanitizeMsg_def Let_def emitError_def andThen_def happen_def ret_def throw_def)

text \<open>With no listener for \<^verbatim>\<open>'error'\<close> the publication throws, the listener of
  \<^verbatim>\<open>'gelf.log'\<close> stops there, and no datagram is sent.\<close>

lemma reserved_id_no_listener_no_datagram:
  assumes "truthy (get_prop m ''_id'')" "\<not> errorListener env"
  shows "on_gelf_log env config (Fields m) cb =
           Some ([Emitted (Error ''_id is not allowed'')], Inl (Error ''_id is not allowed''))"
  using assms
  by (simp add: on_gelf_log_def sanitizeMsg_def Let_def emitError_def andThen_def happen_def
      ret_def throw_def)

text \<open>After a rejected \<^verbatim>\<open>_id\<close>, with a listener for \<^verbatim>\<open>'error'\<close> subscribed, the
  listener of \<^verbatim>\<open>'gelf.log'\<close> goes on with the empty string as the message: it is
  compressed and sent, and the callback is called with \<^verbatim>\<open>null\<close>.\<close>

lemma reserved_id_still_sends:
  assumes "truthy (get_prop m ''_id'')" "errorListener env" "deflate env [] = Inr b"
    "maybeChunkMessage config (scaledRandom env) b = Some (Single b)"
    "sendThrows env 0 = None" "udpSend env 0 = None"
  shows "on_gelf_log env config (Fields m) (observer r) =
           Some ([Emitted (Error ''_id is not allowed''),
                  ClientSend b (graylogPort config) (graylogHostname config), Called None], Inr ())"
  using assms
  by (simp add: on_gelf_log_def sanitizeMsg_def Let_def sendMessage_def compress_def send_def
      sendTask_def sendDone_def observer_def emitError_def andThen_def happen_def ret_def
      throw_def)

text \<open>A host that does not count as true is replaced by the name of the machine.\<close>

lemma falsy_host_takes_hostname:
  \<open>sanitizeMsg exampleEnv
     (Fields [(''version'', JStr ''1.0''), (''host'', JStr []), (''timestamp'', JNum 5),
              (''facility'', JStr ''f''), (''short_message'', JStr ''m'')])
   = Some ([], Inr (Some
       ''{"version":"1.0","host":"localhost","timestamp":5,"facility":"f","short_message":"m"}''))\<close>
  by code_simp

text \<open>An own property \<^verbatim>\<open>__proto__\<close> of the input (as \<^verbatim>\<open>JSON.parse\<close> makes one) is not
  copied: it becomes the prototype of the envelope, whose \<^verbatim>\<open>short_message\<close> then
  counts as given.\<close>

lemma proto_key_sets_prototype:
  \<open>sanitizeMsg exampleEnv
     (Fields [(''__proto__'', JObj [(''short_message'', JStr ''p'')]), (''host'', JStr ''h''),
              (''timestamp'', JNum 5)])
   = Some ([], Inr (Some ''{"host":"h","timestamp":5,"version":"1.0","facility":"node.js"}''))\<close>
  by code_simp

section \<open>The claims\<close>

text \<open>
  Claim C1: for every payload longer than the configured maxChunkSize, concatenating the
  fragments of all datagrams in sequence order, after stripping the 12-byte header from
  each datagram, reproduces the payload. In the code the header that \<open>createPackets\<close>
  writes has 5 bytes, not 12 (the message id is a single array entry, which
  \<^verbatim>\<open>Buffer.from\<close> cuts to one byte), so stripping 12 bytes takes 7 bytes of every
  fragment away: a payload of 10 bytes cut at 8 comes back as the single byte 8.
  Stripping the 5 bytes that were written gives the payload back (lemma
  \<open>fragments_reassemble\<close>, for every payload and every positive chunk size), and
  stripping 12 never does (lemma \<open>twelve_byte_strip_always_loses\<close>).
\<close>

theorem twelve_byte_strip_loses_payload:
  "maybeChunkMessage (defaults\<lparr>maxChunkSizeWan := 8\<rparr>) 0 [1, 2, 3, 4, 5, 6, 7, 8, 9, 10] =
     Some (Packets [[0x1e, 0x0f, 0x80, 0, 2, 1, 2, 3, 4, 5, 6, 7, 8], [0x1e, 0x0f, 0x80, 1, 2, 9, 10]])
   \<and> concat (map (drop 12) [[0x1e, 0x0f, 0x80, 0, 2, 1, 2, 3, 4, 5, 6, 7, 8 :: byte],
                            [0x1e, 0x0f, 0x80, 1, 2, 9, 10]]) = [8]
   \<and> concat (map (drop 5) [[0x1e, 0x0f, 0x80, 0, 2, 1, 2, 3, 4, 5, 6, 7, 8 :: byte],
                           [0x1e, 0x0f, 0x80, 1, 2, 9, 10]]) = [1, 2, 3, 4, 5, 6, 7, 8, 9, 10]"
  by code_simp

text \<open>
  Claim C2: every chunked datagram begins with a 12-byte header: the magic bytes
  \<open>0x1e 0x0f\<close>, an 8-byte message id, a 1-byte sequence index and a 1-byte total
  count, followed by the fragment. In the code the message id takes one byte: with
  \<^verbatim>\<open>Math.random()\<close> = 0 the id is 10000000 = \<open>0x989680\<close>, of which only \<open>0x80\<close> is
  written, and the fragment starts at the sixth byte.
\<close>

theorem chunk_header_has_five_bytes:
  "maybeChunkMessage (defaults\<lparr>maxChunkSizeWan := 2\<rparr>) 0 [0xAA, 0xBB, 0xCC] =
     Some (Packets [[0x1e, 0x0f, 0x80, 0x00, 0x02, 0xAA, 0xBB],
                    [0x1e, 0x0f, 0x80, 0x01, 0x02, 0xCC]])"
  by code_simp

text \<open>
  Claim C3: every structured input that contains the key \<^verbatim>\<open>_id\<close>, with any value, is
  rejected with an error, no envelope is produced and no datagram is sent. The code
  tests \<^verbatim>\<open>if (msg._id)\<close>: an input with \<^verbatim>\<open>_id: 0\<close> is normalised without an error
  and \<^verbatim>\<open>_id\<close> is written into the envelope. And after an input with \<^verbatim>\<open>_id: 1\<close> was
  rejected (a listener for \<^verbatim>\<open>'error'\<close> being subscribed), the listener of
  \<^verbatim>\<open>'gelf.log'\<close> replaces the missing envelope by the empty string and sends it: a
  datagram leaves, and the callback is called with \<^verbatim>\<open>null\<close>.
\<close>

theorem falsy_id_accepted:
  \<open>sanitizeMsg exampleEnv (Fields [(''_id'', JNum 0), (''short_message'', JStr ''x'')]) =
     Some ([], Inr (Some
       ''{"_id":0,"short_message":"x","version":"1.0","host":"localhost","timestamp":1700000000,"facility":"node.js"}''))
   \<and> on_gelf_log exampleEnv defaults (Fields [(''_id'', JNum 1)]) (observer False) =
     Some ([Emitted (Error ''_id is not allowed''),
            ClientSend [0x78, 0x9c, 0x03, 0x00, 0x00, 0x00, 0x00, 0x01] 12201 ''127.0.0.1'',
            Called None], Inr ())\<close>
  by code_simp

text \<open>
  Claim C4: with connection \<^verbatim>\<open>'wan'\<close> and maxChunkSizeWan 1420, a payload of exactly
  1420 bytes yields one datagram, the payload itself with no header, and a payload of
  1421 bytes yields at least two framed datagrams whose fragments are at most 1420
  bytes long. The first half holds. For 1421 bytes the code returns two packets that
  carry the first 1420 bytes and the last byte, but behind the five-byte header of C2:
  the packets have 1425 and 6 bytes, and the second is shorter than the 12-byte header
  of a framed datagram. (Lemma \<open>maybeChunkMessage_1421\<close> gives the two packets for
  every payload of 1421 bytes.)
\<close>

theorem threshold_packets_have_short_header:
  "maybeChunkMessage defaults 0 (replicate 1420 0xAB) = Some (Single (replicate 1420 0xAB))
   \<and> maybeChunkMessage defaults 0 (replicate 1421 0xAB) =
       Some (Packets [[0x1e, 0x0f, 0x80, 0x00, 0x02] @ replicate 1420 0xAB,
                      [0x1e, 0x0f, 0x80, 0x01, 0x02, 0xAB]])"
proof -
  have a: "connection defaults = ''wan''" and b: "maxChunkSizeWan defaults = 1420"
    by (simp_all add: defaults_def)
  have l0: "length (replicate 1420 (0xAB :: byte)) = 1420"
    and l1: "length (replicate 1421 (0xAB :: byte)) = 1421"
    by simp_all
  have t: "take 1420 (replicate 1421 (0xAB :: byte)) = replicate 1420 0xAB"
    by (simp only: take_replicate) simp
  have d: "drop 1420 (replicate 1421 (0xAB :: byte)) = [0xAB]"
    by (simp only: drop_replicate) simp
  have i: "(word_of_int (newMsgId 0) :: byte) = 0x80"
    by (simp add: newMsgId_def)
  show ?thesis
    using maybeChunkMessage_1420 [OF a b l0, of 0] maybeChunkMessage_1421 [OF a b l1, of 0]
    by (simp only: t d i append_Cons append_Nil simp_thms)
qed

text \<open>
  Claim C5: for a message of three chunks whose second send fails, exactly two
  datagrams go to the socket (chunks 0 and 1), chunk 2 never does, and exactly one
  transport error is surfaced on the error channel. The code sends chunks 0 and 1 and
  no more, and calls the completion callback once, with the error. But it publishes the
  error only if the callback returns a value that counts as true: with a callback that
  returns nothing (as the default callback does) no error is published; with one that
  returns true the error is published once. (Lemma \<open>send_three_second_fails\<close> gives
  the trace for all packets, errors and callbacks.)
\<close>

theorem second_send_failure_not_published:
  "maybeChunkMessage (defaults\<lparr>maxChunkSizeWan := 2\<rparr>) 0 [1, 2, 3, 4, 5] =
     Some (Packets [[0x1e, 0x0f, 0x80, 0, 3, 1, 2], [0x1e, 0x0f, 0x80, 1, 3, 3, 4],
                    [0x1e, 0x0f, 0x80, 2, 3, 5]])
   \<and> send (exampleEnv\<lparr>udpSend := (\<lambda>k. if k = 1 then Some (Error ''EPERM'') else None)\<rparr>)
        (defaults\<lparr>maxChunkSizeWan := 2\<rparr>)
        (Packets [[0x1e, 0x0f, 0x80, 0, 3, 1, 2], [0x1e, 0x0f, 0x80, 1, 3, 3, 4],
                  [0x1e, 0x0f, 0x80, 2, 3, 5]])
        (observer False)
     = Some ([ClientSend [0x1e, 0x0f, 0x80, 0, 3, 1, 2] 12201 ''127.0.0.1'',
              ClientSend [0x1e, 0x0f, 0x80, 1, 3, 3, 4] 12201 ''127.0.0.1'',
              Called (Some (Error ''EPERM''))], Inr ())
   \<and> send (exampleEnv\<lparr>udpSend := (\<lambda>k. if k = 1 then Some (Error ''EPERM'') else None)\<rparr>)
        (defaults\<lparr>maxChunkSizeWan := 2\<rparr>)
        (Packets [[0x1e, 0x0f, 0x80, 0, 3, 1, 2], [0x1e, 0x0f, 0x80, 1, 3, 3, 4],
                  [0x1e, 0x0f, 0x80, 2, 3, 5]])
        (observer True)
     = Some ([ClientSend [0x1e, 0x0f, 0x80, 0, 3, 1, 2] 12201 ''127.0.0.1'',
              ClientSend [0x1e, 0x0f, 0x80, 1, 3, 3, 4] 12201 ''127.0.0.1'',
              Called (Some (Error ''EPERM'')), Emitted (Error ''EPERM'')], Inr ())"
  by code_simp

text \<open>
  Claim C6: every terminal failure (validation, compression, transport) is both passed
  to the completion callback and published on the error channel. The code does not do
  both: a failed send with a callback that returns nothing (as the default callback
  does) is passed to the callback and never published; a rejected \<^verbatim>\<open>_id\<close> is
  published and the callback is later called with \<^verbatim>\<open>null\<close>; a failed compression
  inside \<^verbatim>\<open>sendMessage\<close> ends in a TypeError, with neither.
\<close>

theorem failures_not_on_both_channels:
  "send (exampleEnv\<lparr>udpSend := (\<lambda>k. Some (Error ''EPERM''))\<rparr>) defaults (Single [0x78, 0x9c])
       (observer False)
     = Some ([ClientSend [0x78, 0x9c] 12201 ''127.0.0.1'', Called (Some (Error ''EPERM''))], Inr ())
   \<and> on_gelf_log exampleEnv defaults (Fields [(''_id'', JStr ''abc'')]) (observer False)
     = Some ([Emitted (Error ''_id is not allowed''),
              ClientSend [0x78, 0x9c, 0x03, 0x00, 0x00, 0x00, 0x00, 0x01] 12201 ''127.0.0.1'',
              Called None], Inr ())
   \<and> sendMessage (exampleEnv\<lparr>deflate := (\<lambda>text. Inl (Error ''zlib''))\<rparr>) defaults ''x''
       (observer False)
     = Some ([], Inl (TypeError ''Cannot read properties of undefined''))"
  by code_simp

text \<open>
  Claim C7: normalising the string \<^verbatim>\<open>"hello"\<close> gives an envelope with short_message,
  version \<^verbatim>\<open>"1.0"\<close>, a host, a timestamp and the default facility. In the code the
  defaults are set only when the input is an object: for the string the envelope holds
  short_message and nothing else, whatever the clock and the host name are.
\<close>

theorem text_event_gets_no_defaults:
  \<open>sanitizeMsg env (Text ''hello'') = Some ([], Inr (Some ''{"short_message":"hello"}''))\<close>
  by (simp add: sanitizeMsg_def Let_def shortMessageAndStringify_def assign_def emptyObject_def
      read_prop_def JSON_stringify_def quote_def escape_char_def ret_def)

text \<open>
  Claim C8: in one chunked send every header carries the same message id and the same
  total count. The byte after the magic bytes is the low byte of the message id in
  every packet, and the byte at offset 4 is the number of packets in every packet.
\<close>

theorem chunk_headers_agree:
  assumes "maybeChunkMessage config random buf = Some (Packets pkts)"
  shows "\<forall>i < length pkts. pkts ! i ! 2 = word_of_int (newMsgId random)
           \<and> pkts ! i ! 4 = word_of_nat (length pkts)"
proof -
  from maybeChunkMessage_Packets [OF assms] obtain chunks where
    pk: "pkts = createPackets random chunks" by blast
  show ?thesis
    by (simp add: pk length_createPackets createPackets_nth packet_split shortHeader_def)
qed

theorem chunk_headers_agree_witness:
  "maybeChunkMessage (defaults\<lparr>maxChunkSizeWan := 2\<rparr>) 0 [1, 2, 3] = Some (Packets examplePackets)
   \<and> examplePackets ! 0 ! 2 = word_of_int (newMsgId 0)
   \<and> examplePackets ! 0 ! 4 = word_of_nat (length examplePackets)
   \<and> examplePackets ! 1 ! 2 = word_of_int (newMsgId 0)
   \<and> examplePackets ! 1 ! 4 = word_of_nat (length examplePackets)"
proof -
  have h: "maybeChunkMessage (defaults\<lparr>maxChunkSizeWan := 2\<rparr>) 0 [1, 2, 3] =
             Some (Packets examplePackets)"
    by code_simp
  have l: "0 < length examplePackets" "1 < length examplePackets"
    by (simp_all add: examplePackets_def)
  from chunk_headers_agree [OF h] l h show ?thesis by blast
qed

text \<open>
  Claim C9, as the code has it: normalising the same structured input twice, when its
  host and timestamp values count as true, yields the same result on both runs,
  whatever the clock and the host name are at each run. (Nothing is asked of version
  and facility: their defaults are constants.)
\<close>

theorem normalization_deterministic:
  assumes "truthy (get_prop m ''host'')" "truthy (get_prop m ''timestamp'')"
  shows "sanitizeMsg (env\<lparr>hostname := ha, getTime := ta\<rparr>) (Fields m)
       = sanitizeMsg (env\<lparr>hostname := hb, getTime := tb\<rparr>) (Fields m)"
  using assms
  by (simp add: sanitizeMsg_def Let_def applyDefaults_def shortMessageAndStringify_def
      emitError_def)

theorem normalization_deterministic_witness:
  "truthy (get_prop [(''version'', JStr []), (''host'', JStr ''h''), (''timestamp'', JNum 5),
                     (''facility'', JNull)] ''host'')
   \<and> truthy (get_prop [(''version'', JStr []), (''host'', JStr ''h''), (''timestamp'', JNum 5),
                       (''facility'', JNull)] ''timestamp'')
   \<and> sanitizeMsg (exampleEnv\<lparr>hostname := ''here'', getTime := 1\<rparr>)
        (Fields [(''version'', JStr []), (''host'', JStr ''h''), (''timestamp'', JNum 5),
                 (''facility'', JNull)])
     = sanitizeMsg (exampleEnv\<lparr>hostname := ''elsewhere'', getTime := 2\<rparr>)
        (Fields [(''version'', JStr []), (''host'', JStr ''h''), (''timestamp'', JNum 5),
                 (''facility'', JNull)])"
proof -
  have h: "truthy (get_prop [(''version'', JStr []), (''host'', JStr ''h''),
                             (''timestamp'', JNum 5), (''facility'', JNull)] ''host'')"
    and t: "truthy (get_prop [(''version'', JStr []), (''host'', JStr ''h''),
                               (''timestamp'', JNum 5), (''facility'', JNull)] ''timestamp'')"
    by (simp_all add: get_prop_def)
  from h t normalization_deterministic
    [OF h t, where env = exampleEnv and ha = "''here''" and ta = 1
       and hb = "''elsewhere''" and tb = 2]
  show ?thesis by (intro conjI)
qed

text \<open>The claim as stated (the input contains the four fields) fails for a timestamp
  that does not count as true: a timestamp of 0 is replaced by the clock, so two runs
  one second apart differ.\<close>

theorem falsy_timestamp_counterexample:
  \<open>sanitizeMsg exampleEnv
     (Fields [(''version'', JStr ''1.0''), (''host'', JStr ''h''), (''timestamp'', JNum 0),
              (''facility'', JStr ''f''), (''short_message'', JStr ''m'')])
   = Some ([], Inr (Some
       ''{"version":"1.0","host":"h","timestamp":1700000000,"facility":"f","short_message":"m"}''))
   \<and> sanitizeMsg (exampleEnv\<lparr>getTime := 1700000001000\<rparr>)
     (Fields [(''version'', JStr ''1.0''), (''host'', JStr ''h''), (''timestamp'', JNum 0),
              (''facility'', JStr ''f''), (''short_message'', JStr ''m'')])
   = Some ([], Inr (Some
       ''{"version":"1.0","host":"h","timestamp":1700000001,"facility":"f","short_message":"m"}''))\<close>
  by code_simp

text \<open>
  Claim C10: when the configured connection is any string other than \<^verbatim>\<open>'wan'\<close> and
  \<^verbatim>\<open>'lan'\<close>, \<open>maybeChunkMessage\<close> returns the payload unchanged, neither chunked nor
  framed, however long it is.
\<close>

theorem unknown_connection_unchunked:
  assumes "connection config \<noteq> ''wan''" "connection config \<noteq> ''lan''"
  shows "maybeChunkMessage config random buf = Some (Single buf)"
  using assms by (simp add: maybeChunkMessage_def)

theorem unknown_connection_unchunked_witness:
  "connection (defaults\<lparr>connection := ''udp''\<rparr>) \<noteq> ''wan''
   \<and> connection (defaults\<lparr>connection := ''udp''\<rparr>) \<noteq> ''lan''
   \<and> maybeChunkMessage (defaults\<lparr>connection := ''udp''\<rparr>) 0 (replicate 100000 0)
       = Some (Single (replicate 100000 0))"
  using unknown_connection_unchunked [of "defaults\<lparr>connection := ''udp''\<rparr>" 0 "replicate 100000 0"]
  by simp

end
